theory Spec2Isabelle
  imports Main
begin

section \<open>Data model\<close>

text \<open>
  The module \<^verbatim>\<open>src/db.js\<close> replicates feed items over three PostgreSQL-compatible
  connection pools. The pools (package \<^verbatim>\<open>pg\<close>) are external collaborators; the module
  only calls \<^verbatim>\<open>pool.query(text, params)\<close> and \<^verbatim>\<open>pool.end()\<close>. Console output is not
  modelled.

  A thrown value is an \<^verbatim>\<open>Error\<close> instance carrying a \<^verbatim>\<open>message\<close>; \<^verbatim>\<open>TypeError\<close> is the
  error JavaScript raises itself on a property read of \<^verbatim>\<open>undefined\<close>.
\<close>

datatype error = Error (message: string) | TypeError (message: string)

text \<open>The JavaScript values that occur as cells of result rows and as statistics.\<close>

datatype jsval = JUndefined | JNull | JBool bool | JNum int | JNaN | JStr string | JDate int

type_synonym row = "(string \<times> jsval) list"

record qresult =
  rows :: "row list"
  rowCount :: int

text \<open>A post as the feed pipeline supplies it: nine text fields.\<close>

record post =
  title :: string
  creator :: string
  description :: string
  link :: string
  pubDate :: string
  guid :: string
  guidIsPermaLink :: string
  source :: string
  sourceUrl :: string

text \<open>
  The six statement texts of the module:
  \<^item> \<open>CreateTableQuery\<close>: \<^verbatim>\<open>CREATE TABLE IF NOT EXISTS posts (id SERIAL PRIMARY KEY, ..., guid TEXT UNIQUE, ..., created_at TIMESTAMP DEFAULT CURRENT_TIMESTAMP)\<close>
  \<^item> \<open>InsertQuery\<close>: \<^verbatim>\<open>INSERT INTO posts (title, creator, description, link, pubDate, guid, guidIsPermaLink, source, sourceUrl) VALUES ($1,...,$9) ON CONFLICT (guid) DO NOTHING\<close>
  \<^item> \<open>GuidQuery\<close>: \<^verbatim>\<open>SELECT 1 FROM posts WHERE guid = $1 LIMIT 1\<close>
  \<^item> \<open>ProbeQuery\<close>: \<^verbatim>\<open>SELECT 1\<close>
  \<^item> \<open>CountQuery\<close>: \<^verbatim>\<open>SELECT COUNT(*) as count FROM posts\<close>
  \<^item> \<open>LatestQuery\<close>: \<^verbatim>\<open>SELECT created_at FROM posts ORDER BY created_at DESC LIMIT 1\<close>
\<close>

datatype sql = CreateTableQuery | InsertQuery | GuidQuery | ProbeQuery | CountQuery | LatestQuery

text \<open>
  A pool handle is an object with private state \<open>conn\<close> and two methods. What the
  methods do is up to the driver and the server behind it, so the behaviour is part of the
  handle: \<open>onQuery\<close> and \<open>onEnd\<close> may fail or succeed and may change the state in any way.
  \<open>calls\<close> records every method call made on the handle, oldest first.
\<close>

datatype call = Query sql "string list" | End

record 'c Pool =
  conn :: 'c
  onQuery :: "'c \<Rightarrow> sql \<Rightarrow> string list \<Rightarrow> (error + qresult) \<times> 'c"
  onEnd :: "'c \<Rightarrow> (error + unit) \<times> 'c"
  calls :: "call list"

definition query :: "'c Pool \<Rightarrow> sql \<Rightarrow> string list \<Rightarrow> (error + qresult) \<times> 'c Pool" where
  "query p text params =
     (case onQuery p (conn p) text params of
        (r, c) \<Rightarrow> (r, p\<lparr>conn := c, calls := calls p @ [Query text params]\<rparr>))"

definition end_pool :: "'c Pool \<Rightarrow> (error + unit) \<times> 'c Pool" where
  "end_pool p =
     (case onEnd p (conn p) of
        (r, c) \<Rightarrow> (r, p\<lparr>conn := c, calls := calls p @ [End]\<rparr>))"

text \<open>
  The registry \<^verbatim>\<open>allPools\<close> is a fixed, non-empty array of named pools. Its first entry
  holds the same pool object as the constant \<^verbatim>\<open>pool\<close> (the primary); \<^verbatim>\<open>allPools.slice(1)\<close>
  are the fallbacks.
\<close>

record named =
  name :: string

record 'c backend = named +
  pool :: "'c Pool"

record 'c world =
  primary :: "'c backend"
  fallbacks :: "'c backend list"

definition allPools :: "'c world \<Rightarrow> 'c backend list" where
  "allPools w = primary w # fallbacks w"

definition registry :: "'c Pool \<Rightarrow> 'c Pool \<Rightarrow> 'c Pool \<Rightarrow> 'c world" where
  "registry pool0 cockroachPool neonPool =
     \<lparr>primary = \<lparr>name = ''Aiven PostgreSQL'', pool = pool0\<rparr>,
      fallbacks = [\<lparr>name = ''CockroachDB'', pool = cockroachPool\<rparr>,
                   \<lparr>name = ''Neon'', pool = neonPool\<rparr>]\<rparr>"

text \<open>
  The objects the per-backend tasks return: \<^verbatim>\<open>{name, success, error?}\<close>,
  \<^verbatim>\<open>{name, connected, error?}\<close> and \<^verbatim>\<open>{name, totalPosts, latestPost, status, error?}\<close>.
  An absent \<^verbatim>\<open>error\<close> property is \<open>None\<close>.
\<close>

record entry = named +
  error :: "string option"

record saveResult = entry +
  success :: bool

record probeResult = entry +
  connected :: bool

record stats = entry +
  totalPosts :: jsval
  latestPost :: jsval
  status :: string

section \<open>Promises and fan-out\<close>

text \<open>
  An async function settles its promise: fulfilled with the returned value, or rejected
  with the thrown error. \<^verbatim>\<open>Promise.allSettled\<close> never rejects; it yields one entry per
  promise, \<^verbatim>\<open>{status: 'fulfilled', value}\<close> or \<^verbatim>\<open>{status: 'rejected', reason}\<close>.
  The selector \<open>val\<close> reads \<^verbatim>\<open>value\<close>; \<open>status\<close> below is the status of a settlement
  entry, while the \<^verbatim>\<open>status\<close> property of a snapshot is \<open>stats.status\<close>.
\<close>

datatype 'a settled = Fulfilled (val: 'a) | Rejected (reason: error)

fun status :: "'a settled \<Rightarrow> string" where
  "status (Fulfilled v) = ''fulfilled''"
| "status (Rejected e) = ''rejected''"

text \<open>The own property names of an entry of \<^verbatim>\<open>Promise.allSettled\<close>.\<close>

fun keys :: "'a settled \<Rightarrow> string list" where
  "keys (Fulfilled v) = [''status'', ''value'']"
| "keys (Rejected e) = [''status'', ''reason'']"

definition settle :: "error + 'a \<Rightarrow> 'a settled" where
  "settle r = (case r of Inr v \<Rightarrow> Fulfilled v | Inl e \<Rightarrow> Rejected e)"

text \<open>
  \<^verbatim>\<open>allPools.map(async ({name, pool}) => ...)\<close> followed by \<^verbatim>\<open>Promise.allSettled\<close>: one task
  per backend. A task touches only its own pool, so the interleaving of the tasks does
  not matter and each is run to its end in turn.
\<close>

definition fanOut :: "('c backend \<Rightarrow> 'a settled \<times> 'c backend) \<Rightarrow> 'c world \<Rightarrow> 'a settled list \<times> 'c world" where
  "fanOut task w =
     (case task (primary w) of
        (r0, b0) \<Rightarrow>
          (let rs = map task (fallbacks w)
           in (r0 # map fst rs, \<lparr>primary = b0, fallbacks = map snd rs\<rparr>)))"

section \<open>savePosts\<close>

datatype postsArg = NonArray jsval | Array "post list"

definition insertParams :: "post \<Rightarrow> string list" where
  "insertParams p =
     [title p, creator p, description p, link p, pubDate p, guid p,
      guidIsPermaLink p, source p, sourceUrl p]"

text \<open>The loop \<^verbatim>\<open>for (const post of posts) await dbPool.query(insertQuery, [...])\<close>.\<close>

fun insertLoop :: "'c Pool \<Rightarrow> post list \<Rightarrow> (error + unit) \<times> 'c Pool" where
  "insertLoop p [] = (Inr (), p)"
| "insertLoop p (x # xs) =
     (case query p InsertQuery (insertParams x) of
        (Inl e, p') \<Rightarrow> (Inl e, p')
      | (Inr res, p') \<Rightarrow> insertLoop p' xs)"

text \<open>The \<^verbatim>\<open>try\<close> block of a save task: create the table, then insert every post.\<close>

definition saveBody :: "post list \<Rightarrow> 'c Pool \<Rightarrow> (error + unit) \<times> 'c Pool" where
  "saveBody posts p =
     (case query p CreateTableQuery [] of
        (Inl e, p') \<Rightarrow> (Inl e, p')
      | (Inr res, p') \<Rightarrow> insertLoop p' posts)"

definition saveTask :: "post list \<Rightarrow> 'c backend \<Rightarrow> saveResult settled \<times> 'c backend" where
  "saveTask posts b =
     (case saveBody posts (pool b) of
        (r, p) \<Rightarrow>
          (settle (case r of
                     Inr u \<Rightarrow> Inr \<lparr>name = name b, error = None, success = True\<rparr>
                   | Inl e \<Rightarrow> Inr \<lparr>name = name b, error = Some (message e), success = False\<rparr>),
           b\<lparr>pool := p\<rparr>))"

definition allFailedMessage :: string where
  "allFailedMessage =
     [CHR 0xE6, CHR 0x89, CHR 0x80, CHR 0xE6, CHR 0x9C, CHR 0x89, CHR 0xE6, CHR 0x95, CHR 0xB0,
      CHR 0xE6, CHR 0x8D, CHR 0xAE, CHR 0xE5, CHR 0xBA, CHR 0x93, CHR 0xE4, CHR 0xBF, CHR 0x9D,
      CHR 0xE5, CHR 0xAD, CHR 0x98, CHR 0xE9, CHR 0x83, CHR 0xBD, CHR 0xE5, CHR 0xA4, CHR 0xB1,
      CHR 0xE8, CHR 0xB4, CHR 0xA5, CHR 0xE4, CHR 0xBA, CHR 0x86]"

text \<open>The settled results of the save tasks (\<^verbatim>\<open>results\<close> in the source).\<close>

definition saveResults :: "post list \<Rightarrow> 'c world \<Rightarrow> saveResult settled list \<times> 'c world" where
  "saveResults posts w = fanOut (saveTask posts) w"

definition successCount :: "saveResult settled list \<Rightarrow> nat" where
  "successCount results =
     length (filter (\<lambda>result. status result = ''fulfilled'' \<and> success (val result)) results)"

definition savePosts :: "'c world \<Rightarrow> postsArg \<Rightarrow> (error + unit) \<times> 'c world" where
  "savePosts w arg =
     (case arg of
        NonArray v \<Rightarrow> (Inr (), w)
      | Array posts \<Rightarrow>
          if length posts = 0 then (Inr (), w)
          else (case saveResults posts w of
                  (results, w') \<Rightarrow>
                    if successCount results = 0 then (Inl (Error allFailedMessage), w')
                    else (Inr (), w')))"

section \<open>isGuidExists\<close>

text \<open>
  The fallback loop \<^verbatim>\<open>for (const {name, pool} of allPools.slice(1))\<close>: a match returns
  \<^verbatim>\<open>true\<close> at once, a miss or a thrown query goes on with the next backend.
\<close>

fun fallbackLoop :: "string \<Rightarrow> 'c backend list \<Rightarrow> bool \<times> 'c backend list" where
  "fallbackLoop g [] = (False, [])"
| "fallbackLoop g (b # bs) =
     (case query (pool b) GuidQuery [g] of
        (Inr res, p) \<Rightarrow>
          if rowCount res > 0 then (True, b\<lparr>pool := p\<rparr> # bs)
          else (case fallbackLoop g bs of (found, bs') \<Rightarrow> (found, b\<lparr>pool := p\<rparr> # bs'))
      | (Inl e, p) \<Rightarrow>
          (case fallbackLoop g bs of (found, bs') \<Rightarrow> (found, b\<lparr>pool := p\<rparr> # bs')))"

definition isGuidExists :: "'c world \<Rightarrow> string \<Rightarrow> (error + bool) \<times> 'c world" where
  "isGuidExists w g =
     (case query (pool (primary w)) GuidQuery [g] of
        (r, p) \<Rightarrow>
          (let b0 = (primary w)\<lparr>pool := p\<rparr>
           in if (case r of Inr res \<Rightarrow> rowCount res > 0 | Inl e \<Rightarrow> False)
              then (Inr True, w\<lparr>primary := b0\<rparr>)
              else (case fallbackLoop g (fallbacks w) of
                      (found, bs') \<Rightarrow> (Inr found, \<lparr>primary = b0, fallbacks = bs'\<rparr>))))"

section \<open>testAllConnections\<close>

definition probeTask :: "'c backend \<Rightarrow> probeResult settled \<times> 'c backend" where
  "probeTask b =
     (case query (pool b) ProbeQuery [] of
        (r, p) \<Rightarrow>
          (settle (case r of
                     Inr res \<Rightarrow> Inr \<lparr>name = name b, error = None, connected = True\<rparr>
                   | Inl e \<Rightarrow> Inr \<lparr>name = name b, error = Some (message e), connected = False\<rparr>),
           b\<lparr>pool := p\<rparr>))"

definition connectedCount :: "probeResult settled list \<Rightarrow> nat" where
  "connectedCount results =
     length (filter (\<lambda>result. status result = ''fulfilled'' \<and> connected (val result)) results)"

text \<open>The function returns \<^verbatim>\<open>results\<close>, the array \<^verbatim>\<open>Promise.allSettled\<close> gave.\<close>

definition testAllConnections :: "'c world \<Rightarrow> (error + probeResult settled list) \<times> 'c world" where
  "testAllConnections w = (case fanOut probeTask w of (results, w') \<Rightarrow> (Inr results, w'))"

section \<open>getAllDatabaseStats\<close>

text \<open>Property read on a row object: an absent property is \<^verbatim>\<open>undefined\<close>.\<close>

definition cell :: "row \<Rightarrow> string \<Rightarrow> jsval" where
  "cell r k = (case map_of r k of Some v \<Rightarrow> v | None \<Rightarrow> JUndefined)"

text \<open>The operand test of \<^verbatim>\<open>||\<close>. A \<^verbatim>\<open>Date\<close> is an object, hence truthy.\<close>

fun truthy :: "jsval \<Rightarrow> bool" where
  "truthy JUndefined = False"
| "truthy JNull = False"
| "truthy (JBool b) = b"
| "truthy (JNum n) = (n \<noteq> 0)"
| "truthy JNaN = False"
| "truthy (JStr s) = (s \<noteq> [])"
| "truthy (JDate t) = True"

text \<open>
  \<^verbatim>\<open>parseInt\<close> is a built-in of the runtime, not code of the module. The statistics
  functions take it as the parameter \<open>parseInt\<close>, and what is proved of them holds
  whatever function it is.
\<close>

definition undefinedCountMessage :: string where
  "undefinedCountMessage =
     ''Cannot read properties of undefined (reading '' @ [CHR 0x27] @ ''count'' @ [CHR 0x27] @ '')''"

text \<open>
  The \<^verbatim>\<open>try\<close> block of a statistics task. Both queries are awaited before the object is
  built; \<^verbatim>\<open>countResult.rows[0].count\<close> raises a \<^verbatim>\<open>TypeError\<close> when there is no row,
  \<^verbatim>\<open>latestResult.rows[0]?.created_at\<close> does not.
\<close>

definition statsBody :: "(jsval \<Rightarrow> jsval) \<Rightarrow> string \<Rightarrow> 'c Pool \<Rightarrow> (error + stats) \<times> 'c Pool" where
  "statsBody parseInt nm p =
     (case query p CountQuery [] of
        (Inl e, p1) \<Rightarrow> (Inl e, p1)
      | (Inr countResult, p1) \<Rightarrow>
          (case query p1 LatestQuery [] of
             (Inl e, p2) \<Rightarrow> (Inl e, p2)
           | (Inr latestResult, p2) \<Rightarrow>
               (case rows countResult of
                  [] \<Rightarrow> (Inl (TypeError undefinedCountMessage), p2)
                | r0 # rest \<Rightarrow>
                    (let created = (case rows latestResult of
                                      [] \<Rightarrow> JUndefined
                                    | l0 # rest' \<Rightarrow> cell l0 ''created_at'')
                     in (Inr \<lparr>name = nm, error = None,
                              totalPosts = parseInt (cell r0 ''count''),
                              latestPost = (if truthy created then created else JNull),
                              status = ''healthy''\<rparr>, p2)))))"

definition statsTask :: "(jsval \<Rightarrow> jsval) \<Rightarrow> 'c backend \<Rightarrow> stats settled \<times> 'c backend" where
  "statsTask parseInt b =
     (case statsBody parseInt (name b) (pool b) of
        (r, p) \<Rightarrow>
          (settle (case r of
                     Inr st \<Rightarrow> Inr st
                   | Inl e \<Rightarrow> Inr \<lparr>name = name b, error = Some (message e),
                                  totalPosts = JNum (-1), latestPost = JNull,
                                  status = ''error''\<rparr>),
           b\<lparr>pool := p\<rparr>))"

definition statsResults :: "(jsval \<Rightarrow> jsval) \<Rightarrow> 'c world \<Rightarrow> stats settled list \<times> 'c world" where
  "statsResults parseInt w = fanOut (statsTask parseInt) w"

text \<open>
  \<^verbatim>\<open>results.map(result => result.status === 'fulfilled' ? result.value : result.reason)\<close>:
  an element of the returned array is a snapshot (\<open>Inr\<close>) or a rejection reason (\<open>Inl\<close>).
\<close>

definition getAllDatabaseStats ::
  "(jsval \<Rightarrow> jsval) \<Rightarrow> 'c world \<Rightarrow> (error + (error + stats) list) \<times> 'c world" where
  "getAllDatabaseStats parseInt w =
     (case statsResults parseInt w of
        (results, w') \<Rightarrow>
          (Inr (map (\<lambda>result. if status result = ''fulfilled'' then Inr (val result)
                              else Inl (reason result)) results), w'))"

section \<open>closeAllConnections\<close>

definition closeTask :: "'c backend \<Rightarrow> unit settled \<times> 'c backend" where
  "closeTask b =
     (case end_pool (pool b) of
        (r, p) \<Rightarrow> (settle (case r of Inr u \<Rightarrow> Inr () | Inl e \<Rightarrow> Inr ()), b\<lparr>pool := p\<rparr>))"

definition closeResults :: "'c world \<Rightarrow> unit settled list \<times> 'c world" where
  "closeResults w = fanOut closeTask w"

definition closeAllConnections :: "'c world \<Rightarrow> (error + unit) \<times> 'c world" where
  "closeAllConnections w = (case closeResults w of (results, w') \<Rightarrow> (Inr (), w'))"

section \<open>A PostgreSQL backend\<close>

text \<open>
  A model of one server behind a \<^verbatim>\<open>pg\<close> pool, as far as the six statements go. The table
  \<^verbatim>\<open>posts\<close> is absent (\<open>None\<close>) or holds rows in insertion order. A stored row is a post
  plus the serial \<^verbatim>\<open>id\<close> and \<^verbatim>\<open>created_at\<close>. \<open>clock\<close> is the server's time; it advances
  with every statement. An unreachable server fails every query, and an ended pool
  refuses every call.

  Posts carry a text \<^verbatim>\<open>guid\<close>, so the SQL rule that \<^verbatim>\<open>NULL\<close>s never conflict does not
  come into play.
\<close>

record stored = post +
  rowId :: nat
  created_at :: int

record pgdb =
  reachable :: bool
  ended :: bool
  tbl :: "stored list option"
  serial :: nat
  clock :: int

fun arity :: "sql \<Rightarrow> nat" where
  "arity InsertQuery = 9"
| "arity GuidQuery = 1"
| "arity text = 0"

fun decimal :: "nat \<Rightarrow> string" where
  "decimal n =
     (if n < 10 then [char_of (48 + n)]
      else decimal (n div 10) @ [char_of (48 + n mod 10)])"

declare decimal.simps [simp del]

definition one_row :: "string \<Rightarrow> jsval \<Rightarrow> qresult" where
  "one_row column v = \<lparr>rows = [[(column, v)]], rowCount = 1\<rparr>"

definition no_rows :: qresult where
  "no_rows = \<lparr>rows = [], rowCount = 0\<rparr>"

definition insertRow :: "string list \<Rightarrow> nat \<Rightarrow> int \<Rightarrow> stored" where
  "insertRow params i t =
     \<lparr>title = params ! 0, creator = params ! 1, description = params ! 2, link = params ! 3,
      pubDate = params ! 4, guid = params ! 5, guidIsPermaLink = params ! 6,
      source = params ! 7, sourceUrl = params ! 8, rowId = i, created_at = t\<rparr>"

text \<open>
  What a statement does on a table that exists. \<^verbatim>\<open>ON CONFLICT (guid) DO NOTHING\<close>: a row
  whose \<^verbatim>\<open>guid\<close> is stored already is dropped and the table stays as it is; the serial
  is drawn before the conflict is seen.
\<close>

fun onTable :: "sql \<Rightarrow> string list \<Rightarrow> pgdb \<Rightarrow> stored list \<Rightarrow> qresult \<times> pgdb" where
  "onTable CreateTableQuery params db rs = (no_rows, db)"
| "onTable InsertQuery params db rs =
     (if params ! 5 \<in> set (map guid rs)
      then (no_rows, db\<lparr>serial := serial db + 1\<rparr>)
      else (\<lparr>rows = [], rowCount = 1\<rparr>,
            db\<lparr>tbl := Some (rs @ [insertRow params (serial db + 1) (clock db)]),
               serial := serial db + 1\<rparr>))"
| "onTable GuidQuery params db rs =
     (if params ! 0 \<in> set (map guid rs) then (one_row ''?column?'' (JNum 1), db)
      else (no_rows, db))"
| "onTable ProbeQuery params db rs = (one_row ''?column?'' (JNum 1), db)"
| "onTable CountQuery params db rs = (one_row ''count'' (JStr (decimal (length rs))), db)"
| "onTable LatestQuery params db rs =
     (case rs of
        [] \<Rightarrow> (no_rows, db)
      | r # rest \<Rightarrow> (one_row ''created_at'' (JDate (fold max (map created_at rest) (created_at r))), db))"

definition tick :: "pgdb \<Rightarrow> pgdb" where
  "tick db = db\<lparr>clock := clock db + 1\<rparr>"

definition pgQuery :: "pgdb \<Rightarrow> sql \<Rightarrow> string list \<Rightarrow> (error + qresult) \<times> pgdb" where
  "pgQuery db text params =
     (if ended db then (Inl (Error ''Cannot use a pool after calling end on the pool''), db)
      else if \<not> reachable db then (Inl (Error ''timeout exceeded when trying to connect''), db)
      else if length params \<noteq> arity text
        then (Inl (Error ''bind message supplies the wrong number of parameters''), tick db)
      else if text = ProbeQuery then (Inr (one_row ''?column?'' (JNum 1)), tick db)
      else (case tbl db of
              None \<Rightarrow>
                if text = CreateTableQuery then (Inr no_rows, tick (db\<lparr>tbl := Some []\<rparr>))
                else (Inl (Error ''relation posts does not exist''), tick db)
            | Some rs \<Rightarrow>
                (case onTable text params db rs of (res, db') \<Rightarrow> (Inr res, tick db'))))"

definition pgEnd :: "pgdb \<Rightarrow> (error + unit) \<times> pgdb" where
  "pgEnd db =
     (if ended db then (Inl (Error ''Called end on pool more than once''), db)
      else (Inr (), db\<lparr>ended := True\<rparr>))"

definition pgPool :: "pgdb \<Rightarrow> pgdb Pool" where
  "pgPool db = \<lparr>conn = db, onQuery = pgQuery, onEnd = pgEnd, calls = []\<rparr>"

text \<open>A fresh server without the table, one that cannot be reached, and one backend alone.\<close>

definition freshDb :: pgdb where
  "freshDb = \<lparr>reachable = True, ended = False, tbl = None, serial = 0, clock = 0\<rparr>"

definition downDb :: pgdb where
  "downDb = freshDb\<lparr>reachable := False\<rparr>"

definition single :: "'c Pool \<Rightarrow> 'c world" where
  "single p = \<lparr>primary = \<lparr>name = ''Aiven PostgreSQL'', pool = p\<rparr>, fallbacks = []\<rparr>"

text \<open>The rows stored behind a backend.\<close>

definition storedRows :: "pgdb backend \<Rightarrow> stored list" where
  "storedRows b = (case tbl (conn (pool b)) of None \<Rightarrow> [] | Some rs \<Rightarrow> rs)"

section \<open>Notions the properties are stated with\<close>

text \<open>A backend completes a batch when the \<^verbatim>\<open>try\<close> block of its save task raises nothing.\<close>

definition completes :: "post list \<Rightarrow> 'c backend \<Rightarrow> bool" where
  "completes posts b = (case fst (saveBody posts (pool b)) of Inr u \<Rightarrow> True | Inl e \<Rightarrow> False)"

text \<open>
  A backend matches a guid when its existence query succeeds with at least one row; a
  query that throws is no match. \<open>asked\<close> is the backend after that one query, and
  \<open>consulted\<close> counts the backends up to and including the first one that matches.
\<close>

definition matches :: "string \<Rightarrow> 'c backend \<Rightarrow> bool" where
  "matches g b =
     (case fst (query (pool b) GuidQuery [g]) of Inr res \<Rightarrow> rowCount res > 0 | Inl e \<Rightarrow> False)"

definition asked :: "string \<Rightarrow> 'c backend \<Rightarrow> 'c backend" where
  "asked g b = b\<lparr>pool := snd (query (pool b) GuidQuery [g])\<rparr>"

definition consulted :: "string \<Rightarrow> 'c backend list \<Rightarrow> nat" where
  "consulted g bs = Suc (length (takeWhile (\<lambda>b. \<not> matches g b) bs))"

text \<open>
  What the two statistics queries of a backend reply: the count query on the pool as it
  stands, the latest-row query on the pool the count query left behind.
\<close>

definition countReply :: "'c Pool \<Rightarrow> error + qresult" where
  "countReply p = fst (query p CountQuery [])"

definition latestReply :: "'c Pool \<Rightarrow> error + qresult" where
  "latestReply p = fst (query (snd (query p CountQuery [])) LatestQuery [])"

text \<open>A timestamp or \<^verbatim>\<open>null\<close>: every falsy value reads as \<^verbatim>\<open>null\<close>.\<close>

fun orNull :: "jsval \<Rightarrow> jsval" where
  "orNull JUndefined = JNull"
| "orNull JNull = JNull"
| "orNull (JBool b) = (if b then JBool True else JNull)"
| "orNull (JNum n) = (if n = 0 then JNull else JNum n)"
| "orNull JNaN = JNull"
| "orNull (JStr s) = (if s = [] then JNull else JStr s)"
| "orNull (JDate t) = JDate t"

text \<open>
  The snapshot a backend is due. A query that throws gives the sentinel with the error's
  message, and so does a count reply without a row (reading \<^verbatim>\<open>count\<close> of no row is a
  \<^verbatim>\<open>TypeError\<close>). Otherwise the snapshot is healthy: \<^verbatim>\<open>totalPosts\<close> is \<^verbatim>\<open>parseInt\<close> of the
  \<^verbatim>\<open>count\<close> column of the first row of the count reply, and \<^verbatim>\<open>latestPost\<close> is the
  \<^verbatim>\<open>created_at\<close> column of the first row of the latest-row reply, or \<^verbatim>\<open>null\<close> when there
  is no row.
\<close>

definition sentinel :: "string \<Rightarrow> string \<Rightarrow> stats" where
  "sentinel nm msg =
     \<lparr>name = nm, error = Some msg, totalPosts = JNum (-1), latestPost = JNull, status = ''error''\<rparr>"

definition snapshotFor :: "(jsval \<Rightarrow> jsval) \<Rightarrow> 'c backend \<Rightarrow> stats \<Rightarrow> bool" where
  "snapshotFor parseInt b st =
     (name st = name b
      \<and> (case countReply (pool b) of
           Inl e \<Rightarrow> st = sentinel (name b) (message e)
         | Inr counted \<Rightarrow>
             (case latestReply (pool b) of
                Inl e \<Rightarrow> st = sentinel (name b) (message e)
              | Inr latest \<Rightarrow>
                  (case rows counted of
                     [] \<Rightarrow> st = sentinel (name b) undefinedCountMessage
                   | r0 # rest \<Rightarrow>
                       error st = None
                       \<and> stats.status st = ''healthy''
                       \<and> totalPosts st =
                           parseInt (case map_of r0 ''count'' of
                                       Some v \<Rightarrow> v | None \<Rightarrow> JUndefined)
                       \<and> latestPost st =
                           (case rows latest of
                              [] \<Rightarrow> JNull
                            | l0 # rest' \<Rightarrow>
                                orNull (case map_of l0 ''created_at'' of
                                          Some v \<Rightarrow> v | None \<Rightarrow> JUndefined))))))"

text \<open>
  The record a probe of one backend comes to, and a backend after one \<^verbatim>\<open>end()\<close> on its
  pool, whether that call threw or not.
\<close>

definition probeRecord :: "'c backend \<Rightarrow> probeResult" where
  "probeRecord b =
     (case fst (query (pool b) ProbeQuery []) of
        Inr res \<Rightarrow> \<lparr>name = name b, error = None, connected = True\<rparr>
      | Inl e \<Rightarrow> \<lparr>name = name b, error = Some (message e), connected = False\<rparr>)"

definition released :: "'c backend \<Rightarrow> 'c backend" where
  "released b = b\<lparr>pool := snd (end_pool (pool b))\<rparr>"


subsection \<open>Example data\<close>

definition postA :: post where
  "postA = \<lparr>title = ''First'', creator = ''ann'', description = ''d1'', link = ''https://linux.do/t/1'',
            pubDate = ''Mon, 01 Jan 2024 00:00:00 +0000'', guid = ''linux.do-topic-1'',
            guidIsPermaLink = ''false'', source = ''linux.do'', sourceUrl = ''https://linux.do/latest.rss''\<rparr>"

definition postB :: post where
  "postB = postA\<lparr>title := ''Second'', link := ''https://linux.do/t/2'', guid := ''linux.do-topic-2''\<rparr>"

definition postC :: post where
  "postC = postA\<lparr>title := ''First, edited''\<rparr>"

definition partialWorld :: "pgdb world" where
  "partialWorld = registry (pgPool downDb) (pgPool freshDb) (pgPool downDb)"

definition deadWorld :: "pgdb world" where
  "deadWorld = registry (pgPool downDb) (pgPool downDb) (pgPool downDb)"

definition mixedWorld :: "pgdb world" where
  "mixedWorld = registry (pgPool freshDb) (pgPool downDb) (pgPool freshDb)"

definition savedWorld :: "pgdb world" where
  "savedWorld = snd (savePosts partialWorld (Array [postA, postB]))"

text \<open>
  For the statistics: a server whose table exists and is empty, the pool that the batch
  of three posts was written to, and a registry of that pool, an unreachable server and
  the empty one. In the examples \<open>readDecimal\<close> stands in for \<^verbatim>\<open>parseInt\<close>: on a text of one
  to fifteen decimal digits it is the integer the text denotes, as \<^verbatim>\<open>parseInt\<close> is
  there, and the examples pass it nothing else.
\<close>

definition emptyDb :: pgdb where
  "emptyDb = freshDb\<lparr>tbl := Some []\<rparr>"

definition filledPool :: "pgdb Pool" where
  "filledPool =
     pool (primary (snd (savePosts (single (pgPool freshDb)) (Array [postA, postB, postC]))))"

definition statsWorld :: "pgdb world" where
  "statsWorld = registry filledPool (pgPool downDb) (pgPool emptyDb)"

definition readDecimal :: "jsval \<Rightarrow> jsval" where
  "readDecimal v =
     (case v of
        JStr s \<Rightarrow>
          if s \<noteq> [] \<and> length s \<le> 15 \<and> list_all (\<lambda>c. c \<in> set ''0123456789'') s
          then JNum (int (foldl (\<lambda>n c. 10 * n + (of_char c - 48)) 0 s))
          else JNaN
      | _ \<Rightarrow> JNaN)"

section \<open>Fan-out and settlement\<close>

lemma fst_fanOut: "fst (fanOut task w) = map (\<lambda>b. fst (task b)) (allPools w)"
  by (simp add: fanOut_def allPools_def split: prod.splits)

lemma status_saveTask: "status (fst (saveTask posts b)) = ''fulfilled''"
  by (simp add: saveTask_def settle_def split: prod.splits sum.splits)

lemma status_probeTask: "status (fst (probeTask b)) = ''fulfilled''"
  by (simp add: probeTask_def settle_def split: prod.splits sum.splits)

lemma status_statsTask: "status (fst (statsTask parseInt b)) = ''fulfilled''"
  by (simp add: statsTask_def settle_def split: prod.splits sum.splits)

lemma status_closeTask: "status (fst (closeTask b)) = ''fulfilled''"
  by (simp add: closeTask_def settle_def split: prod.splits sum.splits)

lemma map_const_replicate: "map (\<lambda>x. c) xs = replicate (length xs) c"
  by (induction xs) auto

text \<open>
  Claim C10. In each of the four fan-outs every per-backend task catches what its
  \<^verbatim>\<open>try\<close> block raises and returns a value, so every entry \<^verbatim>\<open>Promise.allSettled\<close>
  yields has status \<^verbatim>\<open>'fulfilled'\<close>, whatever the pools do. The branches for a rejected
  entry are never taken: the two counts are those of the values alone, and every
  element \<^verbatim>\<open>getAllDatabaseStats\<close> returns is a value, none a reason.
\<close>

theorem every_settlement_fulfilled:
  "map status (fst (saveResults posts w)) = replicate (length (allPools w)) ''fulfilled''
   \<and> map status (fst (fanOut probeTask w)) = replicate (length (allPools w)) ''fulfilled''
   \<and> map status (fst (statsResults parseInt w)) = replicate (length (allPools w)) ''fulfilled''
   \<and> map status (fst (closeResults w)) = replicate (length (allPools w)) ''fulfilled''
   \<and> successCount (fst (saveResults posts w)) =
       length (filter (\<lambda>result. success (val result)) (fst (saveResults posts w)))
   \<and> connectedCount (fst (fanOut probeTask w)) =
       length (filter (\<lambda>result. connected (val result)) (fst (fanOut probeTask w)))
   \<and> fst (getAllDatabaseStats parseInt w) =
       Inr (map (\<lambda>result. Inr (val result)) (fst (statsResults parseInt w)))"
proof -
  have "fst (getAllDatabaseStats parseInt w) =
      Inr (map (\<lambda>result. Inr (val result)) (fst (statsResults parseInt w)))"
    by (cases "statsResults parseInt w")
      (use fst_fanOut [of "statsTask parseInt" w] in
        \<open>simp add: getAllDatabaseStats_def statsResults_def status_statsTask\<close>)
  then show ?thesis
    by (simp add: saveResults_def statsResults_def closeResults_def fst_fanOut o_def
        successCount_def connectedCount_def filter_map
        status_saveTask status_probeTask status_statsTask status_closeTask map_const_replicate)
qed

section \<open>savePosts\<close>

lemma success_saveTask: "success (val (fst (saveTask posts b))) = completes posts b"
  by (simp add: saveTask_def settle_def completes_def split: prod.splits sum.splits)

lemma successCount_saveResults:
  "successCount (fst (saveResults posts w)) = length (filter (completes posts) (allPools w))"
  by (simp add: successCount_def saveResults_def fst_fanOut filter_map o_def
      status_saveTask success_saveTask)

text \<open>
  Claim C1. When \<^verbatim>\<open>savePosts\<close> fans a batch out, it raises exactly when no backend
  completes the batch, and what it raises is the one aggregate error; as soon as one
  backend completes, the call returns normally.
\<close>

theorem savePosts_raises_iff_every_backend_failed:
  assumes "posts \<noteq> []"
  shows "fst (savePosts w (Array posts)) =
           (if \<forall>b \<in> set (allPools w). \<not> completes posts b
            then Inl (Error allFailedMessage) else Inr ())"
proof -
  have "(successCount (fst (saveResults posts w)) = 0) = (\<forall>b \<in> set (allPools w). \<not> completes posts b)"
    by (simp add: successCount_saveResults filter_empty_conv)
  with assms show ?thesis
    by (cases "saveResults posts w") (simp add: savePosts_def)
qed

text \<open>
  With only the second of three backends reachable the call returns normally; with none
  reachable it raises the aggregate error.
\<close>

theorem savePosts_raises_iff_every_backend_failed_witness:
  "[postA] \<noteq> []
   \<and> fst (savePosts partialWorld (Array [postA])) = Inr ()
   \<and> fst (savePosts deadWorld (Array [postA])) = Inl (Error allFailedMessage)"
proof -
  have ne: "[postA] \<noteq> []" by simp
  have some: "\<not> (\<forall>b \<in> set (allPools partialWorld). \<not> completes [postA] b)"
    by code_simp
  have none: "\<forall>b \<in> set (allPools deadWorld). \<not> completes [postA] b"
    by code_simp
  from savePosts_raises_iff_every_backend_failed [OF ne, of partialWorld] some
  have "fst (savePosts partialWorld (Array [postA])) = Inr ()" by simp
  moreover from savePosts_raises_iff_every_backend_failed [OF ne, of deadWorld] none
  have "fst (savePosts deadWorld (Array [postA])) = Inl (Error allFailedMessage)" by simp
  ultimately show ?thesis by simp
qed

text \<open>
  Claim C8. An empty batch returns at once, without error, and leaves every pool as it
  was: no call is recorded on any handle.
\<close>

theorem savePosts_empty_batch: "savePosts w (Array []) = (Inr (), w)"
  by (simp add: savePosts_def)

text \<open>
  Claim C9. An argument that is not an array is treated like the empty batch: no error,
  no call on any pool.
\<close>

theorem savePosts_non_array: "savePosts w (NonArray v) = (Inr (), w)"
  by (simp add: savePosts_def)

section \<open>isGuidExists\<close>

lemma fallbackLoop_scan:
  "fallbackLoop g bs =
     ((\<exists>b \<in> set bs. matches g b),
      map (asked g) (take (consulted g bs) bs) @ drop (consulted g bs) bs)"
proof (induction bs)
  case Nil
  show ?case by (simp add: consulted_def)
next
  case (Cons b bs)
  obtain r p where q: "query (pool b) GuidQuery [g] = (r, p)"
    by (cases "query (pool b) GuidQuery [g]")
  show ?case
  proof (cases "matches g b")
    case True
    with q show ?thesis
      by (cases r) (simp_all add: matches_def asked_def consulted_def)
  next
    case False
    with q Cons.IH show ?thesis
      by (cases r) (simp_all add: matches_def asked_def consulted_def)
  qed
qed

text \<open>
  Claim C2. \<^verbatim>\<open>isGuidExists\<close> asks the backends in registry order, the primary first, and
  stops at the first one that matches: the answer is \<^verbatim>\<open>true\<close> exactly when some backend
  matches (a backend whose query throws counts as no match and does not stop the scan),
  and the backends after the first match are left alone, with no call recorded on them.
  In particular a matching primary means that no fallback is asked.
\<close>

theorem isGuidExists_primary_then_fallbacks:
  "fst (isGuidExists w g) = Inr (\<exists>b \<in> set (allPools w). matches g b)
   \<and> allPools (snd (isGuidExists w g)) =
       map (asked g) (take (consulted g (allPools w)) (allPools w))
       @ drop (consulted g (allPools w)) (allPools w)"
proof -
  obtain r p where q: "query (pool (primary w)) GuidQuery [g] = (r, p)"
    by (cases "query (pool (primary w)) GuidQuery [g]")
  show ?thesis
  proof (cases "matches g (primary w)")
    case True
    with q show ?thesis
      by (cases r) (simp_all add: isGuidExists_def matches_def asked_def consulted_def allPools_def)
  next
    case False
    with q show ?thesis
      by (cases r)
        (simp_all add: isGuidExists_def matches_def asked_def consulted_def allPools_def
          fallbackLoop_scan)
  qed
qed

text \<open>
  In \<open>savedWorld\<close> only the second backend is reachable and holds the two posts. The guid
  of the second post is found there after the primary's query has thrown, and the third
  backend is not asked; an unknown guid is asked of all three and not found.
\<close>

theorem isGuidExists_primary_then_fallbacks_witness:
  "fst (isGuidExists savedWorld ''linux.do-topic-2'') = Inr True
   \<and> consulted ''linux.do-topic-2'' (allPools savedWorld) = 2
   \<and> map (\<lambda>b. length (calls (pool b))) (allPools savedWorld) = [1, 3, 1]
   \<and> map (\<lambda>b. length (calls (pool b)))
        (allPools (snd (isGuidExists savedWorld ''linux.do-topic-2''))) = [2, 4, 1]
   \<and> fst (isGuidExists savedWorld ''linux.do-topic-9'') = Inr False"
proof -
  have hit: "(\<exists>b \<in> set (allPools savedWorld). matches ''linux.do-topic-2'' b) = True"
    by code_simp
  have miss: "(\<exists>b \<in> set (allPools savedWorld). matches ''linux.do-topic-9'' b) = False"
    by code_simp
  have n: "consulted ''linux.do-topic-2'' (allPools savedWorld) = 2"
    by code_simp
  have before: "map (\<lambda>b. length (calls (pool b))) (allPools savedWorld) = [1, 3, 1]"
    by code_simp
  have after: "map (\<lambda>b. length (calls (pool b)))
             (map (asked ''linux.do-topic-2'') (take 2 (allPools savedWorld))
              @ drop 2 (allPools savedWorld)) = [2, 4, 1]"
    by code_simp
  from isGuidExists_primary_then_fallbacks [of savedWorld "''linux.do-topic-2''"]
    isGuidExists_primary_then_fallbacks [of savedWorld "''linux.do-topic-9''"]
    hit miss n before after
  show ?thesis by simp
qed

section \<open>No operation but savePosts raises\<close>

lemma probeTask_record: "fst (probeTask b) = Fulfilled (probeRecord b)"
  by (simp add: probeTask_def probeRecord_def settle_def split: prod.splits sum.splits)

lemma closeTask_released: "snd (closeTask b) = released b"
  by (simp add: closeTask_def released_def split: prod.splits)

text \<open>
  Claim C5. \<^verbatim>\<open>isGuidExists\<close>, \<^verbatim>\<open>testAllConnections\<close>, \<^verbatim>\<open>getAllDatabaseStats\<close> and
  \<^verbatim>\<open>closeAllConnections\<close> return normally for every input and whatever the pools do:
  each failure of a backend is caught where it happens. A probe that throws shows as
  \<^verbatim>\<open>connected: false\<close> with the message in that backend's record, and a release that
  throws does not keep the other pools from being released.
\<close>

theorem readers_and_shutdown_never_raise:
  "(\<exists>r. fst (isGuidExists w g) = Inr r)
   \<and> fst (testAllConnections w) = Inr (map (\<lambda>b. Fulfilled (probeRecord b)) (allPools w))
   \<and> (\<exists>r. fst (getAllDatabaseStats parseInt w) = Inr r)
   \<and> closeAllConnections w =
       (Inr (), \<lparr>primary = released (primary w), fallbacks = map released (fallbacks w)\<rparr>)"
proof -
  have "fst (testAllConnections w) = Inr (map (\<lambda>b. Fulfilled (probeRecord b)) (allPools w))"
    by (cases "fanOut probeTask w")
      (use fst_fanOut [of probeTask w] in \<open>simp add: testAllConnections_def probeTask_record\<close>)
  moreover have "closeAllConnections w =
      (Inr (), \<lparr>primary = released (primary w), fallbacks = map released (fallbacks w)\<rparr>)"
    by (simp add: closeAllConnections_def closeResults_def fanOut_def closeTask_released
        case_prod_beta o_def)
  ultimately show ?thesis
    by (auto simp add: isGuidExists_def getAllDatabaseStats_def Let_def split: prod.splits)
qed

section \<open>getAllDatabaseStats\<close>

lemma orNull_truthy: "orNull v = (if truthy v then v else JNull)"
  by (cases v) auto

lemma statsTask_snapshot:
  "\<exists>st. fst (statsTask parseInt b) = Fulfilled st \<and> snapshotFor parseInt b st"
proof (cases "query (pool b) CountQuery []")
  case (Pair r1 p1)
  show ?thesis
  proof (cases r1)
    case (Inl e)
    with Pair show ?thesis
      by (simp add: statsTask_def statsBody_def settle_def snapshotFor_def countReply_def
          sentinel_def)
  next
    case counted: (Inr c)
    show ?thesis
    proof (cases "query p1 LatestQuery []")
      case latest: (Pair r2 p2)
      show ?thesis
      proof (cases r2)
        case (Inl e)
        with Pair counted latest show ?thesis
          by (simp add: statsTask_def statsBody_def settle_def snapshotFor_def countReply_def
              latestReply_def sentinel_def)
      next
        case (Inr l)
        with Pair counted latest show ?thesis
          by (simp add: statsTask_def statsBody_def settle_def snapshotFor_def countReply_def
              latestReply_def sentinel_def cell_def orNull_truthy Let_def
              split: list.splits)
      qed
    qed
  qed
qed

lemma val_statsTask: "snapshotFor parseInt b (val (fst (statsTask parseInt b)))"
  using statsTask_snapshot [of parseInt b] by auto

text \<open>
  Claim C7. \<^verbatim>\<open>getAllDatabaseStats\<close> returns one snapshot per backend, in registry order
  and under the backend's name. A backend whose task fails gets the sentinel with the
  error's message; that has no effect on the others, whose snapshots are the healthy
  ones their own replies call for, with the count and the latest timestamp read from
  them.
\<close>

theorem getAllDatabaseStats_one_snapshot_each:
  "\<exists>snaps. fst (getAllDatabaseStats parseInt w) = Inr (map Inr snaps)
           \<and> list_all2 (snapshotFor parseInt) (allPools w) snaps"
proof -
  let ?snaps = "map (\<lambda>b. val (fst (statsTask parseInt b))) (allPools w)"
  have "fst (statsResults parseInt w) = map (\<lambda>b. fst (statsTask parseInt b)) (allPools w)"
    by (simp add: statsResults_def fst_fanOut)
  then have "fst (getAllDatabaseStats parseInt w) = Inr (map Inr ?snaps)"
    by (cases "statsResults parseInt w")
      (simp add: getAllDatabaseStats_def o_def status_statsTask)
  moreover have "list_all2 (snapshotFor parseInt) (allPools w) ?snaps"
    by (simp add: list_all2_conv_all_nth val_statsTask)
  ultimately show ?thesis by blast
qed

text \<open>
  In \<open>statsWorld\<close> the first backend holds two rows, the second cannot be reached and
  the third has the table but no row in it.
\<close>

theorem getAllDatabaseStats_one_snapshot_each_witness:
  "fst (getAllDatabaseStats readDecimal statsWorld) =
     Inr [Inr \<lparr>name = ''Aiven PostgreSQL'', error = None, totalPosts = JNum 2,
               latestPost = JDate 2, status = ''healthy''\<rparr>,
          Inr (sentinel ''CockroachDB'' ''timeout exceeded when trying to connect''),
          Inr \<lparr>name = ''Neon'', error = None, totalPosts = JNum 0,
               latestPost = JNull, status = ''healthy''\<rparr>]"
proof -
  from getAllDatabaseStats_one_snapshot_each [of readDecimal statsWorld] obtain snaps where
    r: "fst (getAllDatabaseStats readDecimal statsWorld) = Inr (map Inr snaps)"
    and l: "list_all2 (snapshotFor readDecimal) (allPools statsWorld) snaps"
    by blast
  have len: "length (allPools statsWorld) = 3" by code_simp
  with l have n: "length snaps = 3" by (simp add: list_all2_lengthD)
  have s0: "snapshotFor readDecimal (allPools statsWorld ! 0) (snaps ! 0)"
    and s1: "snapshotFor readDecimal (allPools statsWorld ! 1) (snaps ! 1)"
    and s2: "snapshotFor readDecimal (allPools statsWorld ! 2) (snaps ! 2)"
    using list_all2_nthD [OF l] len by simp_all
  have n0: "name (allPools statsWorld ! 0) = ''Aiven PostgreSQL''" by code_simp
  have c0: "countReply (pool (allPools statsWorld ! 0)) =
              Inr \<lparr>rows = [[(''count'', JStr ''2'')]], rowCount = 1\<rparr>" by code_simp
  have l0: "latestReply (pool (allPools statsWorld ! 0)) =
              Inr \<lparr>rows = [[(''created_at'', JDate 2)]], rowCount = 1\<rparr>" by code_simp
  have d0: "readDecimal (JStr ''2'') = JNum 2" by code_simp
  have n1: "name (allPools statsWorld ! 1) = ''CockroachDB''" by code_simp
  have c1: "countReply (pool (allPools statsWorld ! 1)) =
              Inl (Error ''timeout exceeded when trying to connect'')" by code_simp
  have n2: "name (allPools statsWorld ! 2) = ''Neon''" by code_simp
  have c2: "countReply (pool (allPools statsWorld ! 2)) =
              Inr \<lparr>rows = [[(''count'', JStr ''0'')]], rowCount = 1\<rparr>" by code_simp
  have l2: "latestReply (pool (allPools statsWorld ! 2)) = Inr \<lparr>rows = [], rowCount = 0\<rparr>"
    by code_simp
  have d2: "readDecimal (JStr ''0'') = JNum 0" by code_simp
  from s0 n0 c0 l0 d0 have h0: "snaps ! 0 =
      \<lparr>name = ''Aiven PostgreSQL'', error = None, totalPosts = JNum 2,
       latestPost = JDate 2, status = ''healthy''\<rparr>"
    by (cases "snaps ! 0") (simp add: snapshotFor_def)
  from s1 n1 c1 have h1: "snaps ! 1 =
      sentinel ''CockroachDB'' ''timeout exceeded when trying to connect''"
    by (simp add: snapshotFor_def)
  from s2 n2 c2 l2 d2 have h2: "snaps ! 2 =
      \<lparr>name = ''Neon'', error = None, totalPosts = JNum 0,
       latestPost = JNull, status = ''healthy''\<rparr>"
    by (cases "snaps ! 2") (simp add: snapshotFor_def)
  from n have "snaps = [snaps ! 0, snaps ! 1, snaps ! 2]"
    by (cases snaps; simp; cases "tl snaps"; simp; cases "tl (tl snaps)"; simp)
  with h0 h1 h2 have "snaps =
      [\<lparr>name = ''Aiven PostgreSQL'', error = None, totalPosts = JNum 2,
        latestPost = JDate 2, status = ''healthy''\<rparr>,
       sentinel ''CockroachDB'' ''timeout exceeded when trying to connect'',
       \<lparr>name = ''Neon'', error = None, totalPosts = JNum 0,
        latestPost = JNull, status = ''healthy''\<rparr>]"
    by simp
  with r show ?thesis by simp
qed

section \<open>testAllConnections\<close>

text \<open>
  Claim C3. \<^verbatim>\<open>testAllConnections\<close> never raises and returns one entry per backend, but
  an entry is the settlement object of \<^verbatim>\<open>Promise.allSettled\<close>, not the record
  \<^verbatim>\<open>{name, connected, error?}\<close>: its own properties are \<^verbatim>\<open>status\<close> and \<^verbatim>\<open>value\<close>, and
  the record is what \<^verbatim>\<open>value\<close> holds. With the second of three backends unreachable:
\<close>

theorem testAllConnections_returns_settlement_objects:
  "fst (testAllConnections mixedWorld) =
     Inr [Fulfilled \<lparr>name = ''Aiven PostgreSQL'', error = None, connected = True\<rparr>,
          Fulfilled \<lparr>name = ''CockroachDB'',
                     error = Some ''timeout exceeded when trying to connect'',
                     connected = False\<rparr>,
          Fulfilled \<lparr>name = ''Neon'', error = None, connected = True\<rparr>]
   \<and> (case fst (testAllConnections mixedWorld) of
         Inr entries \<Rightarrow> map keys entries
       | Inl e \<Rightarrow> []) =
       [[''status'', ''value''], [''status'', ''value''], [''status'', ''value'']]"
  by code_simp

section \<open>Writes on one PostgreSQL backend\<close>








lemma savePosts_single:
  "posts \<noteq> [] \<Longrightarrow>
   savePosts (single p) (Array posts) =
     (case saveBody posts p of
        (Inr u, p') \<Rightarrow> (Inr (), single p')
      | (Inl e, p') \<Rightarrow> (Inl (Error allFailedMessage), single p'))"
  by (simp add: savePosts_def saveResults_def fanOut_def single_def saveTask_def settle_def
      successCount_def split: prod.splits sum.splits)

lemma storedRows_single:
  "storedRows (primary (single p)) = (case tbl (conn p) of None \<Rightarrow> [] | Some rs \<Rightarrow> rs)"
  by (simp add: storedRows_def single_def)

text \<open>
  Claim C4. A batch of three posts whose first and third share a guid, written to one
  healthy backend with no rows yet, leaves two rows: the first post and the second. The
  row under the shared guid carries the first post's fields, among them its title; the
  third insert changed nothing.
\<close>

theorem duplicate_guid_first_occurrence_wins:
  assumes "reachable db" "\<not> ended db" "tbl db = None \<or> tbl db = Some []"
    and "guid p3 = guid p1" "guid p2 \<noteq> guid p1"
  shows "fst (savePosts (single (pgPool db)) (Array [p1, p2, p3])) = Inr ()
         \<and> (let rs = storedRows (primary (snd (savePosts (single (pgPool db))
                                                (Array [p1, p2, p3]))))
            in length rs = 2
               \<and> map title (filter (\<lambda>r. guid r = guid p1) rs) = [title p1]
               \<and> map post.truncate rs = [p1, p2])"
  using assms
  by (auto simp add: savePosts_single storedRows_single saveBody_def query_def pgQuery_def
      pgPool_def tick_def insertParams_def insertRow_def no_rows_def post.truncate_def Let_def)

theorem duplicate_guid_first_occurrence_wins_witness:
  "reachable freshDb \<and> \<not> ended freshDb \<and> tbl freshDb = None
   \<and> guid postC = guid postA \<and> guid postB \<noteq> guid postA \<and> title postC \<noteq> title postA
   \<and> fst (savePosts (single (pgPool freshDb)) (Array [postA, postB, postC])) = Inr ()
   \<and> length (storedRows (primary (snd (savePosts (single (pgPool freshDb))
                                         (Array [postA, postB, postC]))))) = 2
   \<and> map title (filter (\<lambda>r. guid r = ''linux.do-topic-1'')
        (storedRows (primary (snd (savePosts (single (pgPool freshDb))
                                    (Array [postA, postB, postC])))))) = [''First'']"
proof -
  have h: "reachable freshDb" "\<not> ended freshDb" "tbl freshDb = None \<or> tbl freshDb = Some []"
    "guid postC = guid postA" "guid postB \<noteq> guid postA"
    by (simp_all add: freshDb_def postA_def postB_def postC_def)
  have g: "guid postA = ''linux.do-topic-1''" "title postA = ''First''"
    "title postC \<noteq> title postA" "tbl freshDb = None"
    by (simp_all add: freshDb_def postA_def postC_def)
  from duplicate_guid_first_occurrence_wins [OF h] h g show ?thesis
    by (simp add: Let_def)
qed



end
